theory Spec2Isabelle
  imports Complex_Main "HOL-Library.Word"
begin

unbundle bit_operations_syntax

section \<open>Values crossing the JavaScript boundary\<close>

text \<open>
  The bindings of \<^verbatim>\<open>src/session/bindings.cpp\<close> receive JavaScript values. A C++
  \<^verbatim>\<open>double\<close> is kept as its 64 bits (IEEE 754 binary64): one sign bit, eleven bits
  of exponent, fifty-two bits of fraction.
\<close>

type_synonym double = "64 word"

text \<open>
  The number that a double stands for; \<open>None\<close> for the infinities and the NaNs
  (exponent 2047). Exponent 0 holds the zeros and the subnormal numbers.
\<close>

definition dbl_value :: "double \<Rightarrow> real option" where
  "dbl_value d =
     (let n = unat d;
          s = n div 2 ^ 63;
          e = (n div 2 ^ 52) mod 2 ^ 11;
          m = n mod 2 ^ 52;
          sign = (if s = 1 then - 1 else 1)
      in if e = 2047 then None
         else if e = 0 then Some (sign * (real m / 2 ^ 1074))
         else if e < 1023 then Some (sign * ((1 + real m / 2 ^ 52) / 2 ^ (1023 - e)))
         else Some (sign * ((1 + real m / 2 ^ 52) * 2 ^ (e - 1023))))"

text \<open>
  \<^verbatim>\<open>!x\<close> on a double is \<^verbatim>\<open>x == 0\<close>: true when the value is zero (+0.0 and -0.0),
  false for every other number, for the infinities and for a NaN.
\<close>

definition dbl_is_zero :: "double \<Rightarrow> bool" where
  "dbl_is_zero d = (dbl_value d = Some 0)"

text \<open>The double that the assignment \<^verbatim>\<open>x = 1\<close> stores: 1.0.\<close>

definition dbl_one :: double where
  "dbl_one = 0x3FF0000000000000"

definition dbl_is_nan :: "double \<Rightarrow> bool" where
  "dbl_is_nan d = ((unat d div 2 ^ 52) mod 2 ^ 11 = 2047 \<and> unat d mod 2 ^ 52 \<noteq> 0)"

datatype jsval =
    JsUndefined
  | JsNull
  | JsBoolean bool
  | JsNumber double
  | JsString string
  | JsArray "jsval list"
  | JsObject nat
  | JsFunction nat

fun IsUndefined :: "jsval \<Rightarrow> bool" where
  "IsUndefined JsUndefined = True"
| "IsUndefined _ = False"

fun IsNull :: "jsval \<Rightarrow> bool" where
  "IsNull JsNull = True"
| "IsNull _ = False"

fun IsBoolean :: "jsval \<Rightarrow> bool" where
  "IsBoolean (JsBoolean _) = True"
| "IsBoolean _ = False"

fun IsNumber :: "jsval \<Rightarrow> bool" where
  "IsNumber (JsNumber _) = True"
| "IsNumber _ = False"

fun IsString :: "jsval \<Rightarrow> bool" where
  "IsString (JsString _) = True"
| "IsString _ = False"

fun IsArray :: "jsval \<Rightarrow> bool" where
  "IsArray (JsArray _) = True"
| "IsArray _ = False"

fun IsFunction :: "jsval \<Rightarrow> bool" where
  "IsFunction (JsFunction _) = True"
| "IsFunction _ = False"

text \<open>In V8 arrays and functions are objects too.\<close>

fun IsObject :: "jsval \<Rightarrow> bool" where
  "IsObject (JsObject _) = True"
| "IsObject (JsArray _) = True"
| "IsObject (JsFunction _) = True"
| "IsObject _ = False"

text \<open>\<^verbatim>\<open>BooleanValue()\<close>: the ToBoolean conversion of ECMAScript.\<close>

fun BooleanValue :: "jsval \<Rightarrow> bool" where
  "BooleanValue JsUndefined = False"
| "BooleanValue JsNull = False"
| "BooleanValue (JsBoolean b) = b"
| "BooleanValue (JsNumber d) = (\<not> dbl_is_zero d \<and> \<not> dbl_is_nan d)"
| "BooleanValue (JsString s) = (s \<noteq> [])"
| "BooleanValue _ = True"

text \<open>\<^verbatim>\<open>args[i]\<close>: an index past \<^verbatim>\<open>args.Length()\<close> reads as undefined.\<close>

definition arg :: "jsval list \<Rightarrow> nat \<Rightarrow> jsval" where
  "arg args i = (if i < length args then args ! i else JsUndefined)"

text \<open>
  Conversions and helpers that the bindings call and that are declared outside the
  examined sources; they are parameters of the model.
  \<^item> \<open>ToStringUtf8\<close>: \<^verbatim>\<open>*v8::String::Utf8Value(v->ToString())\<close>;
  \<^item> \<open>NumberValueSize\<close>: \<^verbatim>\<open>v->NumberValue()\<close> converted to \<^verbatim>\<open>std::size_t\<close>;
  \<^item> \<open>parsePoint\<close>: the helper \<^verbatim>\<open>parsePoint\<close>;
  \<^item> \<open>parse\<close>: \<^verbatim>\<open>entwine::parse\<close>, from a string to a JSON value.
\<close>

record Point =
  x :: double
  y :: double
  z :: double

record 'json externs =
  ToStringUtf8 :: "jsval \<Rightarrow> string"
  NumberValueSize :: "jsval \<Rightarrow> nat"
  parsePoint :: "jsval \<Rightarrow> Point"
  parse :: "string \<Rightarrow> 'json"

section \<open>Scale and offset arguments of \<^verbatim>\<open>files\<close> and \<^verbatim>\<open>read\<close>\<close>

text \<open>
  Lines 302--309 and 370--377 of \<^verbatim>\<open>bindings.cpp\<close>:
  \<^verbatim>\<open>
    if (!scaleArg->IsNull())
    {
        scale = entwine::makeUnique<entwine::Point>(parsePoint(scaleArg));
        if (!scale->x) scale->x = 1;
        if (!scale->y) scale->y = 1;
        if (!scale->z) scale->z = 1;
    }
  \<close>
  A null \<^verbatim>\<open>unique_ptr\<close> is \<open>None\<close>.
\<close>

definition scaleOf :: "'json externs \<Rightarrow> jsval \<Rightarrow> Point option" where
  "scaleOf ext scaleArg =
     (if \<not> IsNull scaleArg then
        let scale = parsePoint ext scaleArg;
            scale = (if dbl_is_zero (x scale) then scale\<lparr>x := dbl_one\<rparr> else scale);
            scale = (if dbl_is_zero (y scale) then scale\<lparr>y := dbl_one\<rparr> else scale);
            scale = (if dbl_is_zero (z scale) then scale\<lparr>z := dbl_one\<rparr> else scale)
        in Some scale
      else None)"

text \<open>
  Lines 311--314 and 379--382:
  \<^verbatim>\<open>
    if (!offsetArg->IsNull())
        offset = entwine::makeUnique<entwine::Point>(parsePoint(offsetArg));
  \<close>
\<close>

definition offsetOf :: "'json externs \<Rightarrow> jsval \<Rightarrow> Point option" where
  "offsetOf ext offsetArg =
     (if \<not> IsNull offsetArg then Some (parsePoint ext offsetArg) else None)"

text \<open>
  \<^verbatim>\<open>Bindings::files\<close> (lines 288--326). \<open>session_files\<close> stands for
  \<^verbatim>\<open>Session::files\<close>, which receives the parsed search, the scale and the offset.
\<close>

definition files ::
  "'json externs \<Rightarrow> ('json \<Rightarrow> Point option \<Rightarrow> Point option \<Rightarrow> 'r) \<Rightarrow> jsval list \<Rightarrow> 'r" where
  "files ext session_files args =
     (let searchArg = arg args 0;
          scaleArg = arg args 1;
          offsetArg = arg args 2;
          scale = scaleOf ext scaleArg;
          offset = offsetOf ext offsetArg;
          searchString = (if IsString searchArg then ToStringUtf8 ext searchArg else [])
      in session_files (parse ext searchString) scale offset)"

section \<open>Status, exceptions and what the caller observes\<close>

text \<open>
  Modelled from the spec: the class \<^verbatim>\<open>Status\<close>, whose declaration is not among the
  examined sources. It is a numeric code with a message; code 0 is success, a code in
  400..499 is a caller error, a code in 500..599 an internal failure.
\<close>

record Status =
  code :: nat
  message :: string

definition Status_ok :: Status where
  "Status_ok = \<lparr>code = 0, message = []\<rparr>"

definition ok :: "Status \<Rightarrow> bool" where
  "ok st = (code st = 0)"

definition class400 :: "Status \<Rightarrow> bool" where
  "class400 st = (400 \<le> code st \<and> code st < 500)"


text \<open>
  The C++ exceptions that the handlers of \<^verbatim>\<open>bindings.cpp\<close> tell apart, each with its
  \<^verbatim>\<open>what()\<close>. \<open>RuntimeError\<close> is \<^verbatim>\<open>std::runtime_error\<close>; \<open>StdException\<close> is any other
  class derived from \<^verbatim>\<open>std::exception\<close> (\<^verbatim>\<open>std::bad_alloc\<close>, \<^verbatim>\<open>std::logic_error\<close>);
  \<open>NonStd\<close> is a thrown value that is not a \<^verbatim>\<open>std::exception\<close>.
  \<^verbatim>\<open>entwine::InvalidQuery\<close> and \<^verbatim>\<open>WrongQueryType\<close> are declared outside the examined
  sources; they are taken to derive from \<^verbatim>\<open>std::runtime_error\<close>.
\<close>

datatype exn =
    InvalidQuery string
  | WrongQueryType string
  | RuntimeError string
  | StdException string
  | NonStd

fun is_runtime_error :: "exn \<Rightarrow> bool" where
  "is_runtime_error (InvalidQuery _) = True"
| "is_runtime_error (WrongQueryType _) = True"
| "is_runtime_error (RuntimeError _) = True"
| "is_runtime_error _ = False"

fun what :: "exn \<Rightarrow> string" where
  "what (InvalidQuery w) = w"
| "what (WrongQueryType w) = w"
| "what (RuntimeError w) = w"
| "what (StdException w) = w"
| "what NonStd = []"

datatype outcome = Returned | Threw exn

type_synonym byte = "8 word"

text \<open>
  What a call makes observable: a line on standard output, an invocation of the
  initialization callback (a Status, and the total point count when there is one), an
  invocation of the data callback (its status field, the bytes of the buffer and the
  end-of-stream flag).
\<close>

datatype event =
    Stdout string
  | InitCb Status "nat option"
  | DataCb Status "byte list" bool

fun isDataCb :: "event \<Rightarrow> bool" where
  "isDataCb (DataCb _ _ _) = True"
| "isDataCb _ = False"

section \<open>Global initialization\<close>

text \<open>
  The file-level globals of \<^verbatim>\<open>bindings.cpp\<close> (lines 46--55) that \<^verbatim>\<open>Bindings::global\<close>
  writes: \<open>stageFactory\<close> tells whether the \<^verbatim>\<open>unique_ptr\<close> is non-null, \<open>cache\<close> is
  the cache with its size, \<open>outerScope\<close> lists the configurations handed to
  \<^verbatim>\<open>outerScope.getArbiter\<close> (latest first), \<open>segvHandler\<close> and \<open>curlInits\<close> record
  \<^verbatim>\<open>signal(SIGSEGV, handler)\<close> and the calls of \<^verbatim>\<open>curl_global_init\<close>.
\<close>

record 'json Globals =
  stageFactory :: bool
  cache :: "nat option"
  outerScope :: "'json list"
  paths :: "string list"
  segvHandler :: bool
  curlInits :: nat

definition Globals_start :: "'json Globals" where
  "Globals_start =
     \<lparr>stageFactory = False, cache = None, outerScope = [], paths = [],
      segvHandler = False, curlInits = 0\<rparr>"

text \<open>\<^verbatim>\<open>Array::Cast(*rawArg)\<close> and its elements \<^verbatim>\<open>Get(0) .. Get(Length() - 1)\<close>.\<close>

fun elements :: "jsval \<Rightarrow> jsval list" where
  "elements (JsArray vs) = vs"
| "elements _ = []"

text \<open>\<^verbatim>\<open>parsePathList\<close> (lines 57--81): the strings of the array, in order.\<close>

definition parsePathList :: "'json externs \<Rightarrow> jsval \<Rightarrow> string list" where
  "parsePathList ext rawArg =
     (if \<not> IsUndefined rawArg \<and> IsArray rawArg
      then map (ToStringUtf8 ext) (filter IsString (elements rawArg))
      else [])"

text \<open>The local \<^verbatim>\<open>errMsg\<close> of \<^verbatim>\<open>Bindings::global\<close> after lines 161--164.\<close>

definition global_errMsg :: "jsval list \<Rightarrow> string" where
  "global_errMsg args =
     (if \<not> IsArray (arg args 0) then CHR 0x09 # '''paths' must be an array'' else []) @
     (if \<not> IsNumber (arg args 1) then CHR 0x09 # '''cacheSize' must be a number'' else []) @
     (if \<not> IsString (arg args 2) then CHR 0x09 # '''arbiter' must be a string'' else [])"

text \<open>
  \<^verbatim>\<open>Bindings::global\<close> (lines 141--178). The result is how the call ends and the
  globals after it. \<^verbatim>\<open>errMsg\<close> is built and not read again.
\<close>

definition global :: "'json externs \<Rightarrow> jsval list \<Rightarrow> 'json Globals \<Rightarrow> outcome \<times> 'json Globals" where
  "global ext args g =
     (if length args \<noteq> 3 then
        (Threw (RuntimeError ''Wrong number of arguments to global''), g)
      else if stageFactory g then
        (Threw (RuntimeError ''Multiple global initializations attempted''), g)
      else
        let pathsArg = arg args 0;
            cacheSizeArg = arg args 1;
            arbiterArg = arg args 2;
            errMsg = global_errMsg args;
            g = g\<lparr>paths := parsePathList ext pathsArg\<rparr>;
            cacheSize = NumberValueSize ext cacheSizeArg;
            g = g\<lparr>cache := Some cacheSize\<rparr>;
            arbiterString = ToStringUtf8 ext arbiterArg;
            g = g\<lparr>outerScope := parse ext arbiterString # outerScope g\<rparr>;
            g = g\<lparr>segvHandler := True\<rparr>;
            g = g\<lparr>curlInits := curlInits g + 1\<rparr>;
            g = g\<lparr>stageFactory := True\<rparr>
        in (Returned, g))"

section \<open>\<^verbatim>\<open>Bindings::read\<close>\<close>

text \<open>
  A \<^verbatim>\<open>Bindings\<close> object: \<open>m_session\<close> is its \<^verbatim>\<open>std::shared_ptr<Session>\<close>, the
  address of the session or \<open>None\<close> once \<^verbatim>\<open>reset()\<close>.
\<close>

record Bindings =
  m_session :: "nat option"

text \<open>
  The arguments of \<^verbatim>\<open>ReadCommand::create\<close> (lines 409--421) that come from the call:
  the session of the object, the parsed query specification, the two callbacks.
\<close>

record CreateArgs =
  ca_session :: "nat option"
  ca_schemaString :: string
  ca_filterString :: string
  ca_compress :: bool
  ca_scale :: "Point option"
  ca_offset :: "Point option"
  ca_query :: jsval
  ca_initCb :: jsval
  ca_dataCb :: jsval

text \<open>The local \<^verbatim>\<open>errMsg\<close> of \<^verbatim>\<open>Bindings::read\<close> after lines 344--351.\<close>

definition read_errMsg :: "jsval list \<Rightarrow> string" where
  "read_errMsg args =
     (if \<not> IsString (arg args 0) \<and> \<not> IsUndefined (arg args 0)
      then CHR 0x09 # '''schema' must be a string or undefined'' else []) @
     (if \<not> IsString (arg args 1) \<and> \<not> IsUndefined (arg args 1)
      then CHR 0x09 # '''schema' must be a string or undefined'' else []) @
     (if \<not> IsBoolean (arg args 2) then CHR 0x09 # '''compress' must be a boolean'' else []) @
     (if \<not> IsObject (arg args 5) then CHR 0x09 # ''Invalid query type'' else [])"

text \<open>
  The locals that \<^verbatim>\<open>Bindings::read\<close> computes from its arguments (lines 355--382)
  and hands to \<^verbatim>\<open>ReadCommand::create\<close> (lines 409--421).
\<close>

definition createArgs :: "'json externs \<Rightarrow> Bindings \<Rightarrow> jsval list \<Rightarrow> CreateArgs" where
  "createArgs ext obj args =
     (let schemaArg = arg args 0;
          filterArg = arg args 1;
          compressArg = arg args 2;
          scaleArg = arg args 3;
          offsetArg = arg args 4;
          queryArg = arg args 5;
          initCbArg = arg args 6;
          dataCbArg = arg args 7;
          schemaString = (if IsString schemaArg then ToStringUtf8 ext schemaArg else []);
          filterString = (if IsString filterArg then ToStringUtf8 ext filterArg else []);
          compress = BooleanValue compressArg;
          scale = scaleOf ext scaleArg;
          offset = offsetOf ext offsetArg
      in \<lparr>ca_session = m_session obj, ca_schemaString = schemaString,
          ca_filterString = filterString, ca_compress = compress,
          ca_scale = scale, ca_offset = offset, ca_query = queryArg,
          ca_initCb = initCbArg, ca_dataCb = dataCbArg\<rparr>)"

text \<open>
  How the synchronous part of \<^verbatim>\<open>Bindings::read\<close> ends: it throws, or it returns after
  some events, with the command handed to \<^verbatim>\<open>uv_queue_work\<close> if there is one.
\<close>

datatype 'cmd dispatch =
    Throws exn
  | Returns "event list" "'cmd option"

text \<open>
  \<^verbatim>\<open>Bindings::read\<close>, lines 328--438. \<open>create\<close> stands for \<^verbatim>\<open>ReadCommand::create\<close>:
  it throws, returns \<^verbatim>\<open>nullptr\<close> (\<open>None\<close>) or returns a command.
\<close>

definition read ::
  "'json externs \<Rightarrow> (CreateArgs \<Rightarrow> exn + 'cmd option) \<Rightarrow> Bindings \<Rightarrow> jsval list \<Rightarrow> 'cmd dispatch" where
  "read ext create obj args =
     (let initCbArg = arg args 6;
          dataCbArg = arg args 7;
          errMsg = read_errMsg args
      in
        if \<not> IsFunction initCbArg then Throws (RuntimeError ''Invalid initCb'')
        else if \<not> IsFunction dataCbArg then Throws (RuntimeError ''Invalid dataCb'')
        else if errMsg \<noteq> [] then
          Returns [InitCb \<lparr>code = 400, message = errMsg\<rparr> None] None
        else
          (case create (createArgs ext obj args) of
             Inl e \<Rightarrow>
               if is_runtime_error e
               then Returns [Stdout (''Could not create read command: '' @ what e)] None
               else Returns [Stdout ''Could not create read command - unknown error''] None
           | Inr None \<Rightarrow> Returns [] None
           | Inr (Some readCommand) \<Rightarrow> Returns [] (Some readCommand)))"

text \<open>
  The part of a read command that the worker of \<^verbatim>\<open>Bindings::read\<close> touches: its
  \<^verbatim>\<open>status\<close>. The class itself is declared in \<^verbatim>\<open>commands/read.hpp\<close>, outside the
  examined sources; the rest of its state is the extension of the record.
\<close>

record ReadCommand =
  status :: Status

text \<open>
  Modelled from the spec: \<^verbatim>\<open>safe\<close>, a method of the command's base class that is not
  among the examined sources. It runs the function it is given; the two functions handed
  to it catch every exception themselves, so none reaches \<^verbatim>\<open>safe\<close>.
\<close>

definition safe :: "('c \<Rightarrow> 'r) \<Rightarrow> 'c \<Rightarrow> 'r" where
  "safe f c = f c"

text \<open>The handlers around \<^verbatim>\<open>readCommand->init()\<close> (lines 452--475), first match first.\<close>

fun init_catch :: "exn \<Rightarrow> 'a ReadCommand_scheme \<Rightarrow> event list \<times> 'a ReadCommand_scheme" where
  "init_catch (InvalidQuery w) c =
     ([Stdout (''Caught inv query: '' @ w)], c\<lparr>status := \<lparr>code = 400, message = w\<rparr>\<rparr>)"
| "init_catch (WrongQueryType w) c =
     ([Stdout (''Caught wrong query: '' @ w)], c\<lparr>status := \<lparr>code = 400, message = w\<rparr>\<rparr>)"
| "init_catch (RuntimeError w) c =
     ([Stdout (''Caught exception: '' @ w)], c\<lparr>status := \<lparr>code = 400, message = w\<rparr>\<rparr>)"
| "init_catch (StdException w) c =
     ([Stdout (''Caught exception: '' @ w)], c\<lparr>status := \<lparr>code = 400, message = w\<rparr>\<rparr>)"
| "init_catch NonStd c =
     ([Stdout ''Caught unknown''], c\<lparr>status := \<lparr>code = 500, message = ''Error during query''\<rparr>\<rparr>)"

text \<open>The handlers around \<^verbatim>\<open>readCommand->read()\<close> (lines 485--496).\<close>

definition read_catch :: "exn \<Rightarrow> 'a ReadCommand_scheme \<Rightarrow> 'a ReadCommand_scheme" where
  "read_catch e c =
     (if is_runtime_error e then c\<lparr>status := \<lparr>code = 500, message = what e\<rparr>\<rparr>
      else c\<lparr>status := \<lparr>code = 500, message = ''Error during query''\<rparr>\<rparr>)"

text \<open>
  How a computation that may loop ends: \<open>Unfinished\<close> when the steps allowed to it
  did not suffice, \<open>Fault\<close> when it reads or writes outside an array (undefined
  behaviour in C++), \<open>Finished\<close> with its result otherwise.
\<close>

datatype 'a run = Unfinished | Fault | Finished 'a

text \<open>
  The worker function handed to \<^verbatim>\<open>uv_queue_work\<close> (lines 443--498). Its parameters are
  the methods of the command that live outside the examined sources:
  \<^item> \<open>init\<close> is \<^verbatim>\<open>readCommand->init()\<close>: it throws or returns the initialized command;
  \<^item> \<open>summary\<close> is the total point count that \<^verbatim>\<open>doCb(initAsync())\<close> hands to the
    initialization callback together with the status;
  \<^item> \<open>readf\<close> is \<^verbatim>\<open>readCommand->read()\<close>: the data callbacks it delivers, and then the
    exception it throws or the command it leaves.
  A command whose method threw is left as it was before the call, but for its status.
\<close>

definition read_worker ::
  "('a ReadCommand_scheme \<Rightarrow> exn + 'a ReadCommand_scheme) \<Rightarrow>
   ('a ReadCommand_scheme \<Rightarrow> nat option) \<Rightarrow>
   ('a ReadCommand_scheme \<Rightarrow> (event list \<times> (exn + 'a ReadCommand_scheme)) run) \<Rightarrow>
   'a ReadCommand_scheme \<Rightarrow> (event list \<times> 'a ReadCommand_scheme) run" where
  "read_worker init summary readf readCommand =
     (let (ev1, c1) =
            safe (\<lambda>c. case init c of
                        Inr c' \<Rightarrow> ([], c')
                      | Inl e \<Rightarrow> init_catch e c) readCommand;
          ev2 = ev1 @ [InitCb (status c1) (summary c1)]
      in
        if \<not> ok (status c1) then Finished (ev2, c1)
        else
          safe (\<lambda>c. case readf c of
                      Unfinished \<Rightarrow> Unfinished
                    | Fault \<Rightarrow> Fault
                    | Finished (evs, Inr c') \<Rightarrow> Finished (ev2 @ evs, c')
                    | Finished (evs, Inl e) \<Rightarrow> Finished (ev2 @ evs, read_catch e c)) c1)"



text \<open>The status that a callback carries, if it is one.\<close>

fun carried :: "event \<Rightarrow> Status option" where
  "carried (Stdout _) = None"
| "carried (InitCb st _) = Some st"
| "carried (DataCb st _ _) = Some st"

section \<open>The read query over an index: \<^verbatim>\<open>read-queries/entwine.cpp\<close>\<close>

text \<open>
  Modelled from the spec: the base class \<^verbatim>\<open>ReadQuery\<close>, declared outside the examined
  sources. It keeps the schema, the two flags handed to its constructor and the cursor
  over the result sequence that \<^verbatim>\<open>index()\<close> returns, 0 at construction.
\<close>

record 's ReadQuery =
  m_schema :: 's
  m_compress :: bool
  m_rasterize :: bool
  m_index :: nat

text \<open>
  \<^verbatim>\<open>EntwineReadQuery\<close> adds the resolved point ids. Its reader \<^verbatim>\<open>m_entwine\<close> is read
  only through \<^verbatim>\<open>getPointData(id, schema)\<close>, a parameter \<open>rd\<close> of the functions below.
\<close>

record 's EntwineReadQuery = "'s ReadQuery" +
  m_ids :: "nat list"

text \<open>The constructor, lines 9--18.\<close>

definition EntwineReadQuery_new :: "'s \<Rightarrow> bool \<Rightarrow> bool \<Rightarrow> nat list \<Rightarrow> 's EntwineReadQuery" where
  "EntwineReadQuery_new schema compress rasterize ids =
     \<lparr>m_schema = schema, m_compress = compress, m_rasterize = rasterize, m_index = 0,
      m_ids = ids\<rparr>"

definition index :: "'s EntwineReadQuery \<Rightarrow> nat" where
  "index q = m_index q"

text \<open>\<^verbatim>\<open>numPoints\<close>, lines 37--40.\<close>

definition numPoints :: "'s EntwineReadQuery \<Rightarrow> nat" where
  "numPoints q = length (m_ids q)"

text \<open>\<^verbatim>\<open>eof\<close>, lines 32--35.\<close>

definition eof :: "'s EntwineReadQuery \<Rightarrow> bool" where
  "eof q = (index q = numPoints q)"

text \<open>
  \<^verbatim>\<open>readPoint\<close>, lines 23--30. The destination \<^verbatim>\<open>pos\<close> is an offset into the buffer
  \<open>buf\<close>; the result is the buffer after the \<^verbatim>\<open>memcpy\<close>. Reading \<^verbatim>\<open>m_ids\<close> past its
  end and writing past the end of the buffer are undefined in C++: \<open>None\<close>.
\<close>

definition readPoint ::
  "(nat \<Rightarrow> 's \<Rightarrow> byte list) \<Rightarrow> 's EntwineReadQuery \<Rightarrow> byte list \<Rightarrow> nat \<Rightarrow> 's \<Rightarrow> bool \<Rightarrow>
   byte list option" where
  "readPoint rd q buf pos schema rasterize =
     (if index q < length (m_ids q) then
        let point = rd (m_ids q ! index q) schema in
        if pos + length point \<le> length buf
        then Some (take pos buf @ point @ drop (pos + length point) buf)
        else None
      else None)"

text \<open>
  Modelled from the spec: the loop that fills one buffer, a method of the base class
  \<^verbatim>\<open>ReadQuery\<close> outside the examined sources (spec 4.4, step 2: \<^emph>\<open>fill it with as many
  serialized points as fit\<close>). While the sequence is not exhausted and the next point
  fits within \<open>cap\<close> bytes, the buffer grows by the size of the point, \<^verbatim>\<open>readPoint\<close>
  writes it at the old end, and the cursor advances.
\<close>

function fill ::
  "(nat \<Rightarrow> 's \<Rightarrow> byte list) \<Rightarrow> nat \<Rightarrow> 's EntwineReadQuery \<Rightarrow> byte list \<Rightarrow>
   (byte list \<times> 's EntwineReadQuery) option" where
  "fill rd cap q buf =
     (if eof q then Some (buf, q)
      else if numPoints q < index q then None
      else
        let n = length (rd (m_ids q ! index q) (m_schema q)) in
        if cap < length buf + n then Some (buf, q)
        else
          (case readPoint rd q (buf @ replicate n 0) (length buf) (m_schema q) (m_rasterize q) of
             None \<Rightarrow> None
           | Some buf' \<Rightarrow> fill rd cap (q\<lparr>m_index := Suc (index q)\<rparr>) buf'))"
  by pat_completeness auto
termination
  by (relation "measure (\<lambda>(rd, cap, q, buf). numPoints q - index q)")
     (auto simp: eof_def numPoints_def index_def)

text \<open>
  Modelled from the spec: the streaming loop, \<^verbatim>\<open>ReadCommand::read\<close>, outside the
  examined sources (spec 4.4, step 2). Until the sequence is exhausted: take a buffer,
  fill it, hand it to the data callback with the flag that tells whether it is the last.
  The status field of each callback is the status \<open>st\<close> of the command, which the loop
  does not change. The loop runs at most \<open>fuel\<close> times. A query with no point delivers
  nothing.
\<close>

fun stream ::
  "nat \<Rightarrow> (nat \<Rightarrow> 's \<Rightarrow> byte list) \<Rightarrow> nat \<Rightarrow> Status \<Rightarrow> 's EntwineReadQuery \<Rightarrow>
   (event list \<times> 's EntwineReadQuery) run" where
  "stream 0 rd cap st q = Unfinished"
| "stream (Suc fuel) rd cap st q =
     (if eof q then Finished ([], q)
      else
        (case fill rd cap q [] of
           None \<Rightarrow> Fault
         | Some (buf, q') \<Rightarrow>
             (case stream fuel rd cap st q' of
                Finished (evs, q'') \<Rightarrow> Finished (DataCb st buf (eof q') # evs, q'')
              | Unfinished \<Rightarrow> Unfinished
              | Fault \<Rightarrow> Fault)))"

text \<open>
  Modelled from the spec: the read command over an index, declared in
  \<^verbatim>\<open>commands/read.hpp\<close> outside the examined sources. Its \<open>readQuery\<close> is null until
  \<^verbatim>\<open>init()\<close> has resolved the query into the ordered sequence of point ids (spec 4.4,
  step 1); \<open>resolve\<close> is the outcome of that resolution by the reader: an exception, or
  the ids. The total handed to the initialization callback is the length of that sequence.
\<close>

record 's EntwineReadCommand = ReadCommand +
  readQuery :: "'s EntwineReadQuery option"

definition ReadCommand_new :: "'s EntwineReadCommand" where
  "ReadCommand_new = \<lparr>status = Status_ok, readQuery = None\<rparr>"

definition cmd_init ::
  "(exn + nat list) \<Rightarrow> 's \<Rightarrow> bool \<Rightarrow> bool \<Rightarrow> 's EntwineReadCommand \<Rightarrow>
   exn + 's EntwineReadCommand" where
  "cmd_init resolve schema compress rasterize c =
     (case resolve of
        Inl e \<Rightarrow> Inl e
      | Inr ids \<Rightarrow>
          Inr (c\<lparr>readQuery := Some (EntwineReadQuery_new schema compress rasterize ids)\<rparr>))"

definition cmd_summary :: "'s EntwineReadCommand \<Rightarrow> nat option" where
  "cmd_summary c = map_option numPoints (readQuery c)"

definition cmd_read ::
  "nat \<Rightarrow> (nat \<Rightarrow> 's \<Rightarrow> byte list) \<Rightarrow> nat \<Rightarrow> 's EntwineReadCommand \<Rightarrow>
   (event list \<times> (exn + 's EntwineReadCommand)) run" where
  "cmd_read fuel rd cap c =
     (case readQuery c of
        None \<Rightarrow> Fault
      | Some q \<Rightarrow>
          (case stream fuel rd cap (status c) q of
             Finished (evs, q') \<Rightarrow> Finished (evs, Inr (c\<lparr>readQuery := Some q'\<rparr>))
           | Unfinished \<Rightarrow> Unfinished
           | Fault \<Rightarrow> Fault))"

text \<open>The bytes and the end-of-stream flag that a data callback carries.\<close>

fun payload :: "event \<Rightarrow> byte list" where
  "payload (DataCb _ bs _) = bs"
| "payload _ = []"

fun isLast :: "event \<Rightarrow> bool" where
  "isLast (DataCb _ _ done) = done"
| "isLast _ = False"

section \<open>The buffer pool\<close>

text \<open>Lines 46--47: \<^verbatim>\<open>const std::size_t numBuffers = 512; BufferPool bufferPool(numBuffers);\<close>\<close>

definition numBuffers :: nat where
  "numBuffers = 512"

text \<open>
  Modelled from the spec: the class \<^verbatim>\<open>BufferPool\<close> of \<^verbatim>\<open>util/buffer-pool.hpp\<close>, outside
  the examined sources (spec 4.6). A pool of \<open>n\<close> buffers, numbered from 0; \<open>available\<close>
  is the free set, \<open>checkedOut\<close> the buffers that transfers hold. \<^verbatim>\<open>acquire\<close> hands out
  a free buffer; when none is free the caller waits (\<open>Blocked\<close>) and the pool is as it
  was. \<^verbatim>\<open>release\<close> returns a buffer that is checked out to the free set.
\<close>

record BufferPool =
  available :: "nat list"
  checkedOut :: "nat list"

definition BufferPool_new :: "nat \<Rightarrow> BufferPool" where
  "BufferPool_new n = \<lparr>available = [0..<n], checkedOut = []\<rparr>"

definition bufferPool :: BufferPool where
  "bufferPool = BufferPool_new numBuffers"

datatype acquired = Blocked | Acquired nat BufferPool

definition acquire :: "BufferPool \<Rightarrow> acquired" where
  "acquire p =
     (case available p of
        [] \<Rightarrow> Blocked
      | b # bs \<Rightarrow> Acquired b (p\<lparr>available := bs, checkedOut := b # checkedOut p\<rparr>))"

definition release :: "nat \<Rightarrow> BufferPool \<Rightarrow> BufferPool option" where
  "release b p =
     (if b \<in> set (checkedOut p)
      then Some (p\<lparr>available := available p @ [b], checkedOut := removeAll b (checkedOut p)\<rparr>)
      else None)"

text \<open>
  The states of the process-wide pool: whatever the worker threads do, in whatever
  order, the pool moves by one \<^verbatim>\<open>acquire\<close> that succeeds or one \<^verbatim>\<open>release\<close> at a time.
\<close>

inductive pool_reach :: "BufferPool \<Rightarrow> bool" where
  start: "pool_reach bufferPool"
| acquired: "pool_reach p \<Longrightarrow> acquire p = Acquired b p' \<Longrightarrow> pool_reach p'"
| released: "pool_reach p \<Longrightarrow> release b p = Some p' \<Longrightarrow> pool_reach p'"

section \<open>Session references: \<^verbatim>\<open>destroy\<close> against a read in flight\<close>












section \<open>Concrete values for evaluation\<close>

text \<open>
  An environment to evaluate with. \<open>ToStringUtf8\<close> is V8's conversion on undefined,
  null, booleans and strings. \<open>NumberValueSize\<close> is V8's conversion followed by the
  truncation of C++ on null, booleans and numbers that are not negative. On the other
  values (the text of a number, an array, an object or a function; the number of a
  string; a negative number or a NaN, whose conversion to \<^verbatim>\<open>std::size_t\<close> is undefined)
  the two are placeholders, and nothing below evaluates them there. \<open>parsePoint\<close> reads
  an array of three numbers and gives the origin otherwise; \<open>parse\<close> keeps the text.
\<close>

definition ext0 :: "string externs" where
  "ext0 =
     \<lparr>ToStringUtf8 =
        (\<lambda>v. case v of
                JsString s \<Rightarrow> s
              | JsUndefined \<Rightarrow> ''undefined''
              | JsNull \<Rightarrow> ''null''
              | JsBoolean b \<Rightarrow> (if b then ''true'' else ''false'')
              | _ \<Rightarrow> []),
      NumberValueSize =
        (\<lambda>v. case v of
                JsNumber d \<Rightarrow> (case dbl_value d of Some r \<Rightarrow> nat \<lfloor>r\<rfloor> | None \<Rightarrow> 0)
              | JsBoolean b \<Rightarrow> (if b then 1 else 0)
              | _ \<Rightarrow> 0),
      parsePoint =
        (\<lambda>v. case v of
                JsArray [JsNumber a, JsNumber b, JsNumber c] \<Rightarrow> \<lparr>x = a, y = b, z = c\<rparr>
              | _ \<Rightarrow> \<lparr>x = 0, y = 0, z = 0\<rparr>),
      parse = (\<lambda>s. s)\<rparr>"

definition obj0 :: Bindings where
  "obj0 = \<lparr>m_session = Some 0\<rparr>"

definition create_ok :: "CreateArgs \<Rightarrow> exn + CreateArgs option" where
  "create_ok a = Inr (Some a)"

definition create_throws :: "exn \<Rightarrow> CreateArgs \<Rightarrow> exn + CreateArgs option" where
  "create_throws e a = Inl e"

text \<open>
  The doubles used below, by their bits: \<open>0\<close> is +0.0, \<open>0x8000000000000000\<close> is -0.0,
  \<open>0x3FF0000000000000\<close> is 1.0, \<open>0x4014000000000000\<close> is 5.0, \<open>0x401C000000000000\<close> is 7.0
  and \<open>0x4050000000000000\<close> is 64.0.
\<close>

definition files_args0 :: "jsval list" where
  "files_args0 =
     [JsString ''{}'',
      JsArray [JsNumber 0, JsNumber 0x4014000000000000, JsNumber 0x8000000000000000],
      JsNull]"

definition read_args0 :: "jsval list" where
  "read_args0 =
     [JsUndefined, JsUndefined, JsBoolean False,
      JsArray [JsNumber 0, JsNumber 0x4014000000000000, JsNumber 0x8000000000000000], JsNull,
      JsObject 0, JsFunction 0, JsFunction 1]"

definition read_args_bad :: "jsval list" where
  "read_args_bad =
     [JsNumber 0x4014000000000000, JsUndefined, JsBoolean False, JsNull, JsNull,
      JsString ''bounds'', JsFunction 0, JsFunction 1]"

definition read_args_bad_nocb :: "jsval list" where
  "read_args_bad_nocb =
     [JsNumber 0x4014000000000000, JsUndefined, JsBoolean False, JsNull, JsNull,
      JsString ''bounds'', JsFunction 0, JsUndefined]"

definition global_args0 :: "jsval list" where
  "global_args0 =
     [JsArray [JsString ''/data'', JsNumber 0x401C000000000000, JsString ''s3://bucket''],
      JsNumber 0x4050000000000000, JsString ''{}'']"

definition global_args_bad :: "jsval list" where
  "global_args_bad = [JsString ''/data'', JsNull, JsUndefined]"

definition reader0 :: "nat \<Rightarrow> unit \<Rightarrow> byte list" where
  "reader0 i s = [of_nat i, of_nat (i + 1)]"

definition ids0 :: "nat list" where
  "ids0 = [10, 20, 30, 40, 50]"



text \<open>The pool after one \<^verbatim>\<open>acquire\<close>.\<close>

definition pool1 :: BufferPool where
  "pool1 = \<lparr>available = [Suc 0..<numBuffers], checkedOut = [0]\<rparr>"


section \<open>Scale and offset\<close>

lemma scaleOf_eq:
  "scaleOf ext a =
     (if IsNull a then None
      else Some \<lparr>x = (if dbl_is_zero (x (parsePoint ext a)) then dbl_one
                      else x (parsePoint ext a)),
                 y = (if dbl_is_zero (y (parsePoint ext a)) then dbl_one
                      else y (parsePoint ext a)),
                 z = (if dbl_is_zero (z (parsePoint ext a)) then dbl_one
                      else z (parsePoint ext a))\<rparr>)"
  by (simp add: scaleOf_def Let_def)

lemma dbl_one_value: "dbl_value dbl_one = Some 1"
  by (simp add: dbl_one_def dbl_value_def)

text \<open>
  C7. With a scale argument that is not null, \<^verbatim>\<open>files\<close> hands to the session, and
  \<^verbatim>\<open>read\<close> hands to \<^verbatim>\<open>ReadCommand::create\<close>, the parsed scale point in which every
  component whose value is zero has become the double \<open>0x3FF0000000000000\<close>, whose
  value is 1, and every other component is as parsed; the offset they hand over is the
  parsed offset argument, untouched. \<^verbatim>\<open>read\<close> reaches \<^verbatim>\<open>ReadCommand::create\<close> with
  exactly these values.
\<close>

theorem scale_zero_components_become_one:
  "(\<not> IsNull (arg fargs 1) \<longrightarrow>
      files ext (\<lambda>search scale offset. (scale, offset)) fargs =
        (Some \<lparr>x = (if dbl_value (x (parsePoint ext (arg fargs 1))) = Some 0
                    then 0x3FF0000000000000 else x (parsePoint ext (arg fargs 1))),
               y = (if dbl_value (y (parsePoint ext (arg fargs 1))) = Some 0
                    then 0x3FF0000000000000 else y (parsePoint ext (arg fargs 1))),
               z = (if dbl_value (z (parsePoint ext (arg fargs 1))) = Some 0
                    then 0x3FF0000000000000 else z (parsePoint ext (arg fargs 1)))\<rparr>,
         if IsNull (arg fargs 2) then None else Some (parsePoint ext (arg fargs 2)))) \<and>
   (\<not> IsNull (arg rargs 3) \<longrightarrow>
      ca_scale (createArgs ext obj rargs) =
        Some \<lparr>x = (if dbl_value (x (parsePoint ext (arg rargs 3))) = Some 0
                   then 0x3FF0000000000000 else x (parsePoint ext (arg rargs 3))),
              y = (if dbl_value (y (parsePoint ext (arg rargs 3))) = Some 0
                   then 0x3FF0000000000000 else y (parsePoint ext (arg rargs 3))),
              z = (if dbl_value (z (parsePoint ext (arg rargs 3))) = Some 0
                   then 0x3FF0000000000000 else z (parsePoint ext (arg rargs 3)))\<rparr> \<and>
      ca_offset (createArgs ext obj rargs) =
        (if IsNull (arg rargs 4) then None else Some (parsePoint ext (arg rargs 4)))) \<and>
   (IsFunction (arg rargs 6) \<and> IsFunction (arg rargs 7) \<and> read_errMsg rargs = [] \<longrightarrow>
      read ext (\<lambda>a. Inr (Some a)) obj rargs = Returns [] (Some (createArgs ext obj rargs))) \<and>
   dbl_value 0x3FF0000000000000 = Some 1"
proof -
  have one: "dbl_value 0x3FF0000000000000 = Some 1"
    using dbl_one_value by (simp add: dbl_one_def)
  show ?thesis
    by (simp add: files_def createArgs_def read_def scaleOf_eq offsetOf_def Let_def
          dbl_is_zero_def dbl_one_def one)
qed

theorem scale_zero_components_become_one_witness:
  "\<not> IsNull (arg files_args0 1) \<and> \<not> IsNull (arg read_args0 3) \<and>
   IsFunction (arg read_args0 6) \<and> IsFunction (arg read_args0 7) \<and>
   read_errMsg read_args0 = [] \<and>
   parsePoint ext0 (arg files_args0 1) =
     \<lparr>x = 0, y = 0x4014000000000000, z = 0x8000000000000000\<rparr> \<and>
   dbl_value 0 = Some 0 \<and> dbl_value 0x4014000000000000 = Some 5 \<and>
   dbl_value 0x8000000000000000 = Some 0 \<and>
   files ext0 (\<lambda>search scale offset. (scale, offset)) files_args0 =
     (Some \<lparr>x = 0x3FF0000000000000, y = 0x4014000000000000, z = 0x3FF0000000000000\<rparr>,
      None) \<and>
   ca_scale (createArgs ext0 obj0 read_args0) =
     Some \<lparr>x = 0x3FF0000000000000, y = 0x4014000000000000, z = 0x3FF0000000000000\<rparr> \<and>
   ca_offset (createArgs ext0 obj0 read_args0) = None \<and>
   read ext0 (\<lambda>a. Inr (Some a)) obj0 read_args0 =
     Returns [] (Some (createArgs ext0 obj0 read_args0)) \<and>
   dbl_value 0x3FF0000000000000 = Some 1"
  using scale_zero_components_become_one [of files_args0 ext0 read_args0 obj0]
  by (simp add: files_args0_def read_args0_def ext0_def arg_def dbl_value_def
        read_errMsg_def)

section \<open>Global initialization\<close>

text \<open>
  C8. Once a call of \<^verbatim>\<open>global\<close> has returned, the stage factory is set, and every
  later call, whatever its arguments, throws a \<^verbatim>\<open>std::runtime_error\<close> and leaves the
  globals as the first call left them.
\<close>

theorem global_second_call_throws:
  "fst (global ext args1 g0) = Returned \<Longrightarrow>
   stageFactory (snd (global ext args1 g0)) \<and>
   (\<exists>w. global ext' args2 (snd (global ext args1 g0)) =
          (Threw (RuntimeError w), snd (global ext args1 g0)))"
  by (auto simp: global_def Let_def split: if_splits)

theorem global_second_call_throws_witness:
  "fst (global ext0 global_args0 Globals_start) = Returned \<and>
   snd (global ext0 global_args0 Globals_start) =
     \<lparr>stageFactory = True, cache = Some 64, outerScope = [''{}''],
      paths = [''/data'', ''s3://bucket''], segvHandler = True, curlInits = 1\<rparr> \<and>
   global ext0 global_args0 (snd (global ext0 global_args0 Globals_start)) =
     (Threw (RuntimeError ''Multiple global initializations attempted''),
      snd (global ext0 global_args0 Globals_start))"
  using global_second_call_throws [of ext0 global_args0 Globals_start ext0 global_args0]
  by (simp add: global_def global_args0_def Globals_start_def ext0_def arg_def
        parsePathList_def Let_def dbl_value_def)

text \<open>
  C9. A first call of \<^verbatim>\<open>global\<close> with three arguments of which one fails its type
  test builds a non-empty \<^verbatim>\<open>errMsg\<close> and returns all the same: nothing is thrown, and
  the globals are set from the coerced arguments (no path at all when \<^verbatim>\<open>paths\<close> is not
  an array).
\<close>

theorem global_errMsg_never_reported:
  "length args = 3 \<Longrightarrow> \<not> stageFactory g \<Longrightarrow>
   \<not> IsArray (arg args 0) \<or> \<not> IsNumber (arg args 1) \<or> \<not> IsString (arg args 2) \<Longrightarrow>
   global_errMsg args \<noteq> [] \<and>
   global ext args g =
     (Returned,
      g\<lparr>paths := parsePathList ext (arg args 0),
        cache := Some (NumberValueSize ext (arg args 1)),
        outerScope := parse ext (ToStringUtf8 ext (arg args 2)) # outerScope g,
        segvHandler := True,
        curlInits := curlInits g + 1,
        stageFactory := True\<rparr>) \<and>
   (\<not> IsArray (arg args 0) \<longrightarrow> parsePathList ext (arg args 0) = [])"
  by (auto simp: global_def global_errMsg_def parsePathList_def Let_def)

theorem global_errMsg_never_reported_witness:
  "length global_args_bad = 3 \<and> \<not> stageFactory (Globals_start :: string Globals) \<and>
   \<not> IsArray (arg global_args_bad 0) \<and>
   global_errMsg global_args_bad =
     CHR 0x09 # '''paths' must be an array'' @ CHR 0x09 # '''cacheSize' must be a number'' @
     CHR 0x09 # '''arbiter' must be a string'' \<and>
   global ext0 global_args_bad Globals_start =
     (Returned,
      \<lparr>stageFactory = True, cache = Some 0, outerScope = [''undefined''],
       paths = [], segvHandler = True, curlInits = 1\<rparr>)"
  using global_errMsg_never_reported [of global_args_bad Globals_start ext0]
  by (simp add: global_args_bad_def Globals_start_def ext0_def arg_def global_errMsg_def
        parsePathList_def)

section \<open>\<^verbatim>\<open>Bindings::read\<close>: what reaches the caller\<close>

text \<open>
  C10. When both callbacks are functions, the arguments pass the type tests and
  \<^verbatim>\<open>ReadCommand::create\<close> throws, \<^verbatim>\<open>read\<close> writes one line to standard output and
  returns: no callback is invoked and no command is queued.
\<close>

theorem create_throws_no_callback:
  "IsFunction (arg args 6) \<Longrightarrow> IsFunction (arg args 7) \<Longrightarrow> read_errMsg args = [] \<Longrightarrow>
   create (createArgs ext obj args) = Inl e \<Longrightarrow>
   \<exists>line. read ext create obj args = Returns [Stdout line] None"
  by (simp add: read_def)

theorem create_throws_no_callback_witness:
  "IsFunction (arg read_args0 6) \<and> IsFunction (arg read_args0 7) \<and>
   read_errMsg read_args0 = [] \<and>
   create_throws (RuntimeError ''bad depth'') (createArgs ext0 obj0 read_args0) =
     Inl (RuntimeError ''bad depth'') \<and>
   read ext0 (create_throws (RuntimeError ''bad depth'')) obj0 read_args0 =
     Returns [Stdout ''Could not create read command: bad depth''] None"
  using create_throws_no_callback
    [of read_args0 "create_throws (RuntimeError ''bad depth'')" ext0 obj0
        "RuntimeError ''bad depth''"]
  by (simp add: read_def read_args0_def arg_def read_errMsg_def create_throws_def)

text \<open>
  C2, as stated, fails: with a schema argument of the wrong shape and a data callback
  that is not a function, \<^verbatim>\<open>read\<close> throws and no Status reaches the initialization
  callback.
\<close>

theorem invalid_query_400_counterexample:
  "read_errMsg read_args_bad_nocb \<noteq> [] \<and>
   IsFunction (arg read_args_bad_nocb 6) \<and>
   read ext0 create_ok obj0 read_args_bad_nocb = Throws (RuntimeError ''Invalid dataCb'')"
  by (simp add: read_def read_args_bad_nocb_def arg_def read_errMsg_def)

text \<open>
  C2, amended. When both callbacks are functions and an argument has the wrong shape,
  \<^verbatim>\<open>read\<close> invokes the initialization callback once, with a Status of code 400, and
  queues no command. When \<^verbatim>\<open>init()\<close> throws \<^verbatim>\<open>InvalidQuery\<close> or \<^verbatim>\<open>WrongQueryType\<close>,
  the worker logs one line, invokes the initialization callback with a Status of code
  400 and stops: the result does not depend on \<^verbatim>\<open>read()\<close>, which is not run.
\<close>

theorem invalid_query_400:
  "(IsFunction (arg args 6) \<and> IsFunction (arg args 7) \<and>
    ((\<not> IsString (arg args 0) \<and> \<not> IsUndefined (arg args 0)) \<or>
     (\<not> IsString (arg args 1) \<and> \<not> IsUndefined (arg args 1)) \<or>
     \<not> IsBoolean (arg args 2) \<or> \<not> IsObject (arg args 5)) \<longrightarrow>
      read_errMsg args \<noteq> [] \<and>
      class400 \<lparr>code = 400, message = read_errMsg args\<rparr> \<and>
      read ext create obj args =
        Returns [InitCb \<lparr>code = 400, message = read_errMsg args\<rparr> None] None) \<and>
   (init c = Inl e \<and> (e = InvalidQuery w \<or> e = WrongQueryType w) \<longrightarrow>
      (\<exists>line. read_worker init summary readf c =
         Finished ([Stdout line,
                    InitCb \<lparr>code = 400, message = w\<rparr>
                      (summary (c\<lparr>status := \<lparr>code = 400, message = w\<rparr>\<rparr>))],
                   c\<lparr>status := \<lparr>code = 400, message = w\<rparr>\<rparr>)))"
  by (auto simp: read_def read_errMsg_def read_worker_def safe_def ok_def class400_def)

theorem invalid_query_400_witness:
  "IsFunction (arg read_args_bad 6) \<and> IsFunction (arg read_args_bad 7) \<and>
   \<not> IsObject (arg read_args_bad 5) \<and>
   cmd_init (Inl (WrongQueryType ''not an indexed query'')) () False False ReadCommand_new =
     Inl (WrongQueryType ''not an indexed query'') \<and>
   read ext0 create_ok obj0 read_args_bad =
     Returns [InitCb \<lparr>code = 400,
                message = CHR 0x09 # '''schema' must be a string or undefined'' @
                          CHR 0x09 # ''Invalid query type''\<rparr> None] None \<and>
   read_worker (cmd_init (Inl (WrongQueryType ''not an indexed query'')) () False False)
      cmd_summary (cmd_read 1 reader0 4) ReadCommand_new =
     Finished ([Stdout ''Caught wrong query: not an indexed query'',
                InitCb \<lparr>code = 400, message = ''not an indexed query''\<rparr> None],
               \<lparr>status = \<lparr>code = 400, message = ''not an indexed query''\<rparr>, readQuery = None\<rparr>)"
  using invalid_query_400
    [of read_args_bad ext0 create_ok obj0
        "cmd_init (Inl (WrongQueryType ''not an indexed query'')) () False False"
        ReadCommand_new
        "WrongQueryType ''not an indexed query''" "''not an indexed query''"
        cmd_summary "cmd_read 1 reader0 4"]
  by (simp add: read_args_bad_def arg_def read_errMsg_def cmd_init_def cmd_summary_def
        ReadCommand_new_def read_worker_def safe_def ok_def Let_def read_def)




section \<open>Streaming\<close>

lemma readPoint_at_end:
  "index q < length (m_ids q) \<Longrightarrow>
   readPoint rd q (buf @ replicate (length (rd (m_ids q ! index q) s)) 0) (length buf) s r =
     Some (buf @ rd (m_ids q ! index q) s)"
  by (simp add: readPoint_def Let_def)

text \<open>
  One buffer: the loop appends the points of the next \<open>k\<close> ids, in order, and moves the
  cursor by \<open>k\<close>; \<open>k\<close> is positive when the first point fits.
\<close>

lemma fill_spec:
  "index q \<le> numPoints q \<Longrightarrow>
   \<exists>k. index q + k \<le> numPoints q \<and>
       fill rd cap q buf =
         Some (buf @ concat (map (\<lambda>i. rd i (m_schema q)) (take k (drop (index q) (m_ids q)))),
               q\<lparr>m_index := index q + k\<rparr>) \<and>
       (\<not> eof q \<and> length buf + length (rd (m_ids q ! index q) (m_schema q)) \<le> cap \<longrightarrow> 0 < k)"
proof (induction rd cap q buf rule: fill.induct)
  case (1 rd cap q buf)
  let ?i = "index q"
  let ?pt = "rd (m_ids q ! ?i) (m_schema q)"
  show ?case
  proof (cases "eof q")
    case True
    then have "fill rd cap q buf = Some (buf, q)" by (subst fill.simps) simp
    then show ?thesis using True "1.prems"
      by (intro exI [of _ 0]) (simp add: index_def)
  next
    case neof: False
    with "1.prems" have lt: "?i < length (m_ids q)"
      by (simp add: eof_def numPoints_def)
    show ?thesis
    proof (cases "cap < length buf + length ?pt")
      case True
      then have "fill rd cap q buf = Some (buf, q)"
        using neof lt by (subst fill.simps) (simp add: numPoints_def Let_def)
      then show ?thesis using True "1.prems"
        by (intro exI [of _ 0]) (simp add: index_def)
    next
      case fits: False
      let ?q' = "q\<lparr>m_index := Suc ?i\<rparr>"
      have rp: "readPoint rd q (buf @ replicate (length ?pt) 0) (length buf) (m_schema q)
                  (m_rasterize q) = Some (buf @ ?pt)"
        using lt by (rule readPoint_at_end)
      have step: "fill rd cap q buf = fill rd cap ?q' (buf @ ?pt)"
        using neof lt fits rp by (subst fill.simps) (simp add: numPoints_def Let_def)
      have "index ?q' \<le> numPoints ?q'"
        using lt by (simp add: index_def numPoints_def)
      from "1.IH" [OF neof _ refl fits rp this] lt
      obtain k where k: "index ?q' + k \<le> numPoints ?q'"
        "fill rd cap ?q' (buf @ ?pt) =
           Some ((buf @ ?pt) @ concat (map (\<lambda>i. rd i (m_schema ?q'))
                   (take k (drop (index ?q') (m_ids ?q')))),
                 ?q'\<lparr>m_index := index ?q' + k\<rparr>)"
        by (auto simp: numPoints_def)
      have "take (Suc k) (drop ?i (m_ids q)) = m_ids q ! ?i # take k (drop (Suc ?i) (m_ids q))"
        using lt by (simp add: Cons_nth_drop_Suc [symmetric])
      with k step show ?thesis
        by (intro exI [of _ "Suc k"]) (simp add: index_def numPoints_def)
    qed
  qed
qed

text \<open>
  The whole stream, from any cursor: with more turns than points left and every point
  fitting a buffer, the loop ends at the end of the sequence, and the buffers it
  delivered, put end to end, are the points of the remaining ids in order. Only the
  last data callback carries the end-of-stream flag.
\<close>

lemma stream_spec:
  "numPoints q - index q < fuel \<Longrightarrow> index q \<le> numPoints q \<Longrightarrow>
   \<forall>i\<in>set (m_ids q). length (rd i (m_schema q)) \<le> cap \<Longrightarrow>
   \<exists>evs. stream fuel rd cap st q = Finished (evs, q\<lparr>m_index := numPoints q\<rparr>) \<and>
         list_all isDataCb evs \<and>
         concat (map payload evs) =
           concat (map (\<lambda>i. rd i (m_schema q)) (drop (index q) (m_ids q))) \<and>
         (evs = [] \<longleftrightarrow> eof q) \<and>
         (evs \<noteq> [] \<longrightarrow> isLast (last evs) \<and> (\<forall>e\<in>set (butlast evs). \<not> isLast e))"
proof (induction fuel arbitrary: q)
  case 0
  then show ?case by simp
next
  case (Suc fuel)
  show ?case
  proof (cases "eof q")
    case True
    then have "q\<lparr>m_index := numPoints q\<rparr> = q" by (simp add: eof_def index_def)
    with True show ?thesis by (simp add: eof_def index_def numPoints_def)
  next
    case neof: False
    with Suc.prems have lt: "index q < length (m_ids q)"
      by (simp add: eof_def numPoints_def)
    then have "m_ids q ! index q \<in> set (m_ids q)" by simp
    with Suc.prems have fits: "length (rd (m_ids q ! index q) (m_schema q)) \<le> cap" by blast
    from fill_spec [OF Suc.prems(2), of rd cap "[]"] neof fits
    obtain k where k: "index q + k \<le> numPoints q" "0 < k"
      and f: "fill rd cap q [] =
                Some (concat (map (\<lambda>i. rd i (m_schema q)) (take k (drop (index q) (m_ids q)))),
                      q\<lparr>m_index := index q + k\<rparr>)"
      by auto
    let ?q1 = "q\<lparr>m_index := index q + k\<rparr>"
    let ?buf = "concat (map (\<lambda>i. rd i (m_schema q)) (take k (drop (index q) (m_ids q))))"
    have q1: "numPoints ?q1 = numPoints q" "index ?q1 = index q + k" "m_ids ?q1 = m_ids q"
      "m_schema ?q1 = m_schema q" "?q1\<lparr>m_index := numPoints ?q1\<rparr> = q\<lparr>m_index := numPoints q\<rparr>"
      by (simp_all add: numPoints_def index_def)
    have "numPoints ?q1 - index ?q1 < fuel" "index ?q1 \<le> numPoints ?q1"
      "\<forall>i\<in>set (m_ids ?q1). length (rd i (m_schema ?q1)) \<le> cap"
      using Suc.prems k by (simp_all add: q1)
    from Suc.IH [OF this] obtain evs where
      evs: "stream fuel rd cap st ?q1 = Finished (evs, q\<lparr>m_index := numPoints q\<rparr>)"
        "list_all isDataCb evs"
        "concat (map payload evs) =
           concat (map (\<lambda>i. rd i (m_schema q)) (drop (index q + k) (m_ids q)))"
        "evs = [] \<longleftrightarrow> eof ?q1"
        "evs \<noteq> [] \<longrightarrow> isLast (last evs) \<and> (\<forall>e\<in>set (butlast evs). \<not> isLast e)"
      unfolding q1 by (auto simp: numPoints_def)
    have str: "stream (Suc fuel) rd cap st q =
                Finished (DataCb st ?buf (eof ?q1) # evs, q\<lparr>m_index := numPoints q\<rparr>)"
      using neof f evs(1) by simp
    have "drop (index q + k) (m_ids q) = drop k (drop (index q) (m_ids q))"
      by (simp add: add.commute)
    then have cc: "?buf @ concat (map payload evs) =
                 concat (map (\<lambda>i. rd i (m_schema q)) (drop (index q) (m_ids q)))"
      unfolding evs(3)
      by (metis append_take_drop_id concat_append map_append)
    show ?thesis
      using str evs(2,4,5) cc neof
      by (intro exI [of _ "DataCb st ?buf (eof ?q1) # evs"]) auto
  qed
qed

text \<open>The worker on a command whose resolution succeeds and whose stream ends.\<close>

lemma worker_streams:
  "stream fuel rd cap Status_ok (EntwineReadQuery_new schema compress rasterize ids) =
     Finished (evs, q') \<Longrightarrow>
   read_worker (cmd_init (Inr ids) schema compress rasterize) cmd_summary
      (cmd_read fuel rd cap) ReadCommand_new =
     Finished (InitCb Status_ok (Some (length ids)) # evs,
               \<lparr>status = Status_ok, readQuery = Some q'\<rparr>)"
  by (simp add: read_worker_def safe_def cmd_init_def cmd_summary_def cmd_read_def
        ReadCommand_new_def Status_ok_def ok_def numPoints_def EntwineReadQuery_new_def)

text \<open>
  C1. For a read query resolved into the ids \<open>ids\<close>, with every point fitting a buffer
  and more turns than ids, the worker ends; after the initialization callback it makes
  data callbacks only, the bytes of these callbacks put end to end are the points of
  \<open>ids\<close> decoded in order, and only the last one carries the end-of-stream flag. With
  the cursor at \<open>i\<close>, \<^verbatim>\<open>readPoint\<close> writes the point of the \<open>i\<close>-th id.
\<close>

theorem streaming_lossless_in_order:
  assumes "\<forall>i\<in>set ids. length (rd i schema) \<le> cap" and "length ids < fuel"
  shows "\<exists>evs c'.
           read_worker (cmd_init (Inr ids) schema compress rasterize) cmd_summary
              (cmd_read fuel rd cap) ReadCommand_new =
             Finished (InitCb Status_ok (Some (length ids)) # evs, c') \<and>
           list_all isDataCb evs \<and>
           concat (map payload evs) = concat (map (\<lambda>i. rd i schema) ids) \<and>
           (evs \<noteq> [] \<longrightarrow> isLast (last evs) \<and> (\<forall>e\<in>set (butlast evs). \<not> isLast e)) \<and>
           (\<forall>i<length ids. \<forall>buf.
              readPoint rd ((EntwineReadQuery_new schema compress rasterize ids)\<lparr>m_index := i\<rparr>)
                (buf @ replicate (length (rd (ids ! i) schema)) 0) (length buf) schema rasterize =
              Some (buf @ rd (ids ! i) schema))"
proof -
  let ?q = "EntwineReadQuery_new schema compress rasterize ids"
  have q: "index ?q = 0" "numPoints ?q = length ids" "m_ids ?q = ids" "m_schema ?q = schema"
    by (simp_all add: EntwineReadQuery_new_def index_def numPoints_def)
  from stream_spec [of ?q fuel rd cap Status_ok] assms
  obtain evs where
    evs: "stream fuel rd cap Status_ok ?q = Finished (evs, ?q\<lparr>m_index := numPoints ?q\<rparr>)"
    "list_all isDataCb evs"
    "concat (map payload evs) = concat (map (\<lambda>i. rd i schema) ids)"
    "evs \<noteq> [] \<longrightarrow> isLast (last evs) \<and> (\<forall>e\<in>set (butlast evs). \<not> isLast e)"
    unfolding q by auto
  have rp: "\<forall>i<length ids. \<forall>buf.
              readPoint rd (?q\<lparr>m_index := i\<rparr>)
                (buf @ replicate (length (rd (ids ! i) schema)) 0) (length buf) schema rasterize =
              Some (buf @ rd (ids ! i) schema)"
    by (simp add: readPoint_def EntwineReadQuery_new_def index_def Let_def)
  from worker_streams [OF evs(1)] evs(2-4) rp show ?thesis by blast
qed

theorem streaming_lossless_in_order_witness:
  "list_all (\<lambda>i. length (reader0 i ()) \<le> 4) ids0 \<and> length ids0 < 6 \<and>
   read_worker (cmd_init (Inr ids0) () False False) cmd_summary (cmd_read 6 reader0 4)
      ReadCommand_new =
     Finished ([InitCb Status_ok (Some 5), DataCb Status_ok [10, 11, 20, 21] False,
                DataCb Status_ok [30, 31, 40, 41] False, DataCb Status_ok [50, 51] True],
               \<lparr>status = Status_ok,
                readQuery = Some ((EntwineReadQuery_new () False False ids0)\<lparr>m_index := 5\<rparr>)\<rparr>) \<and>
   concat (map (\<lambda>i. reader0 i ()) ids0) = [10, 11, 20, 21, 30, 31, 40, 41, 50, 51]"
  using streaming_lossless_in_order [of ids0 reader0 "()" 4 6 False False]
  by (simp add: read_worker_def safe_def cmd_init_def cmd_summary_def cmd_read_def
        ReadCommand_new_def Status_ok_def ok_def numPoints_def EntwineReadQuery_new_def
        ids0_def reader0_def eof_def index_def readPoint_def Let_def eval_nat_numeral)

text \<open>
  C4. A read query resolved into no id has no point and is at its end from the start;
  the worker invokes the initialization callback with an ok Status and a total of 0,
  invokes no data callback, and ends with an ok Status.
\<close>

theorem empty_result_no_data_callback:
  "numPoints (EntwineReadQuery_new schema compress rasterize []) = 0 \<and>
   eof (EntwineReadQuery_new schema compress rasterize []) \<and>
   ok Status_ok \<and>
   read_worker (cmd_init (Inr []) schema compress rasterize) cmd_summary
      (cmd_read (Suc fuel) rd cap) ReadCommand_new =
     Finished ([InitCb Status_ok (Some 0)],
               \<lparr>status = Status_ok,
                readQuery = Some (EntwineReadQuery_new schema compress rasterize [])\<rparr>)"
  by (simp add: read_worker_def safe_def cmd_init_def cmd_summary_def cmd_read_def
        ReadCommand_new_def Status_ok_def ok_def numPoints_def EntwineReadQuery_new_def
        eof_def index_def)

section \<open>The buffer pool never hands out more than it has\<close>

lemma pool_reach_inv:
  "pool_reach p \<Longrightarrow>
   distinct (available p @ checkedOut p) \<and>
   set (available p) \<union> set (checkedOut p) = {0..<numBuffers}"
proof (induction rule: pool_reach.induct)
  case start
  show ?case by (simp add: bufferPool_def BufferPool_new_def)
next
  case (acquired p b p')
  then show ?case
    by (auto simp: acquire_def split: list.splits)
next
  case (released p b p')
  then show ?case
    by (auto simp: release_def distinct_removeAll split: if_splits)
qed

lemma pool_reach_count:
  assumes "pool_reach p"
  shows "length (available p) + length (checkedOut p) = numBuffers"
proof -
  from pool_reach_inv [OF assms]
  have d: "distinct (available p @ checkedOut p)"
    and s: "set (available p @ checkedOut p) = {0..<numBuffers}" by auto
  from d have "length (available p @ checkedOut p) = card (set (available p @ checkedOut p))"
    by (rule distinct_card [symmetric])
  with s show ?thesis by simp
qed

text \<open>
  C5. In every state the process-wide pool can reach, the number of buffers checked
  out is at most \<open>numBuffers\<close>, which is 512. \<^verbatim>\<open>acquire\<close> blocks exactly when all 512
  are checked out; otherwise it hands out a buffer that nobody holds; and after any
  \<^verbatim>\<open>release\<close> an \<^verbatim>\<open>acquire\<close> goes through.
\<close>

theorem pool_never_exceeds_numBuffers:
  assumes "pool_reach p"
  shows "numBuffers = 512 \<and>
         length (checkedOut p) \<le> numBuffers \<and>
         (acquire p = Blocked \<longleftrightarrow> length (checkedOut p) = numBuffers) \<and>
         (length (checkedOut p) < numBuffers \<longrightarrow>
            (\<exists>b p'. acquire p = Acquired b p' \<and> b \<notin> set (checkedOut p) \<and>
                    checkedOut p' = b # checkedOut p)) \<and>
         (\<forall>b p'. release b p = Some p' \<longrightarrow> acquire p' \<noteq> Blocked)"
proof -
  note c = pool_reach_count [OF assms]
  from pool_reach_inv [OF assms] have d: "distinct (available p @ checkedOut p)" by simp
  have 1: "acquire p = Blocked \<longleftrightarrow> length (checkedOut p) = numBuffers"
    using c by (auto simp: acquire_def split: list.splits)
  have 2: "length (checkedOut p) < numBuffers \<longrightarrow>
            (\<exists>b p'. acquire p = Acquired b p' \<and> b \<notin> set (checkedOut p) \<and>
                    checkedOut p' = b # checkedOut p)"
    using c d by (auto simp: acquire_def split: list.splits)
  have 3: "\<forall>b p'. release b p = Some p' \<longrightarrow> acquire p' \<noteq> Blocked"
    by (auto simp: release_def acquire_def split: list.splits if_splits)
  from c 1 2 3 show ?thesis by (simp add: numBuffers_def)
qed

lemma pool1_reach: "pool_reach pool1"
proof -
  have "[0..<numBuffers] = 0 # [Suc 0..<numBuffers]"
    by (rule upt_conv_Cons) (simp add: numBuffers_def)
  then have "acquire bufferPool = Acquired 0 pool1"
    by (simp add: acquire_def bufferPool_def BufferPool_new_def pool1_def)
  with pool_reach.start show ?thesis by (rule pool_reach.acquired)
qed

theorem pool_never_exceeds_numBuffers_witness:
  "pool_reach pool1 \<and> checkedOut pool1 = [0] \<and> length (checkedOut pool1) < numBuffers \<and>
   acquire pool1 \<noteq> Blocked \<and> release 0 pool1 \<noteq> None"
proof -
  have co: "checkedOut pool1 = [0]" by (simp add: pool1_def)
  have lt: "length (checkedOut pool1) < numBuffers" by (simp add: co numBuffers_def)
  from pool_never_exceeds_numBuffers [OF pool1_reach] lt
  have "acquire pool1 \<noteq> Blocked" by simp
  moreover have "release 0 pool1 \<noteq> None" by (simp add: release_def co)
  ultimately show ?thesis using pool1_reach co lt by simp
qed

section \<open>Destroying a session under a read in flight\<close>















end
